theory Spec2Isabelle
  imports Complex_Main
begin

section \<open>Data model\<close>

text \<open>
  The C++ sources work in \<^verbatim>\<open>double\<close>; the embedding takes every \<^verbatim>\<open>double\<close> as a
  \<^typ>\<open>real\<close>, so rounding, infinities and NaN are outside the model. A
  \<^verbatim>\<open>CommonTime\<close> (declared outside the files at hand) is a number of seconds on one
  time axis, also a \<^typ>\<open>real\<close>: \<^verbatim>\<open>t - ctToe\<close> is a difference in seconds and
  \<^verbatim>\<open>ctToe + 3600.0\<close> adds seconds, as in the source.
\<close>

type_synonym CommonTime = real

text \<open>Every exception thrown in the three files is an \<^verbatim>\<open>InvalidRequest\<close> with a message.\<close>

datatype error = InvalidRequest string

text \<open>\<^verbatim>\<open>SatID\<close>: the satellite system and the PRN (\<^verbatim>\<open>int id\<close>).\<close>

datatype SatelliteSystem =
  systemGPS | systemGalileo | systemGlonass | systemGeosync | systemLEO
  | systemTransit | systemBeiDou | systemQZSS | systemMixed
  | systemUserDefined | systemUnknown

record SatID =
  id_sat :: int
  system :: SatelliteSystem

section \<open>SatArcMarker\<close>

text \<open>
  The members the constructor and \<^verbatim>\<open>setUnstablePeriod\<close> write. \<^verbatim>\<open>TypeID\<close> is a
  parameter of the model; \<^verbatim>\<open>index\<close> is assigned by \<^verbatim>\<open>setIndex()\<close> from the static
  counter \<^verbatim>\<open>classIndex\<close>, which is passed in and returned.
\<close>

record 'tid SatArcMarker =
  watchCSFlag :: 'tid
  deleteUnstableSats :: bool
  unstablePeriod :: real
  index :: int

definition setIndex :: "'tid SatArcMarker \<Rightarrow> int \<Rightarrow> 'tid SatArcMarker \<times> int" where
  "setIndex m classIndex = (m\<lparr>index := classIndex\<rparr>, classIndex + 1)"

definition SatArcMarker_init ::
  "'tid \<Rightarrow> bool \<Rightarrow> real \<Rightarrow> int \<Rightarrow> 'tid SatArcMarker \<times> int" where
  "SatArcMarker_init watchFlag delUnstableSats unstableTime classIndex =
     (let m = \<lparr>watchCSFlag = watchFlag, deleteUnstableSats = delUnstableSats,
                unstablePeriod = (if unstableTime > 0.0 then unstableTime else 0.0),
                index = 0\<rparr>
      in setIndex m classIndex)"

definition setUnstablePeriod :: "'tid SatArcMarker \<Rightarrow> real \<Rightarrow> 'tid SatArcMarker" where
  "setUnstablePeriod m unstableTime =
     (if unstableTime > 0.0 then m\<lparr>unstablePeriod := unstableTime\<rparr>
      else m\<lparr>unstablePeriod := 0.0\<rparr>)"


section \<open>BDSEphemeris\<close>

text \<open>
  The members of \<^verbatim>\<open>OrbitEph\<close> and \<^verbatim>\<open>BDSEphemeris\<close> that the functions of
  \<^verbatim>\<open>BDSEphemeris.cpp\<close> read or write.
\<close>

record BDSEphemeris =
  dataLoadedFlag :: bool
  satID :: SatID
  ctToe :: CommonTime
  transmitTime :: CommonTime
  beginValid :: CommonTime
  endValid :: CommonTime
  health :: int
  A :: real
  Adot :: real
  ecc :: real
  dn :: real
  dndot :: real
  M0 :: real
  w :: real
  OMEGA0 :: real
  OMEGAdot :: real
  i0 :: real
  idot :: real
  Cuc :: real
  Cus :: real
  Crc :: real
  Crs :: real
  Cic :: real
  Cis :: real

datatype ReferenceFrame = Unknown | WGS84 | PZ90

text \<open>\<^verbatim>\<open>Xvt\<close>: position and velocity (each a \<^verbatim>\<open>Triple\<close>), clock terms and frame.\<close>

type_synonym Triple = "real \<times> real \<times> real"

record Xvt =
  x :: Triple
  v :: Triple
  clkbias :: real
  clkdrift :: real
  relcorr :: real
  frame :: ReferenceFrame

text \<open>
  What \<^verbatim>\<open>BDSEphemeris.cpp\<close> and \<^verbatim>\<open>GalEphemerisStore.hpp\<close> call but do not define is
  a parameter of the model: the constant \<^verbatim>\<open>PI\<close>, the two constants of
  \<^verbatim>\<open>WGS84Ellipsoid\<close>, the seconds of week of \<^verbatim>\<open>GPSWeekSecond\<close>, and the
  \<^verbatim>\<open>OrbitEph\<close> members for the clock terms and for the standard \<^verbatim>\<open>svXvt\<close>.
\<close>

record collab =
  PI :: real
  ell_gm :: real
  ell_angVelocity :: real
  GPSWeekSecond_sow :: "CommonTime \<Rightarrow> real"
  OrbitEph_svRelativity :: "BDSEphemeris \<Rightarrow> CommonTime \<Rightarrow> real"
  OrbitEph_svClockBias :: "BDSEphemeris \<Rightarrow> CommonTime \<Rightarrow> real"
  OrbitEph_svClockDrift :: "BDSEphemeris \<Rightarrow> CommonTime \<Rightarrow> real"
  OrbitEph_svXvt :: "BDSEphemeris \<Rightarrow> CommonTime \<Rightarrow> error + Xvt"

subsection \<open>isValid, isHealthy, adjustValidity\<close>

definition isValid :: "BDSEphemeris \<Rightarrow> CommonTime \<Rightarrow> bool" where
  "isValid r ct = (if ct \<ge> beginValid r \<and> ct \<le> endValid r then True else False)"

text \<open>
  Modelled from the spec: \<^verbatim>\<open>OrbitEph::isHealthy\<close> and \<^verbatim>\<open>OrbitEph::adjustValidity\<close>
  are not in the files at hand. \<^verbatim>\<open>BDSEphemeris.cpp\<close> calls both "for dataLoaded
  check" and documents \<^verbatim>\<open>@throw Invalid Request if the required data has not been
  stored\<close>; the spec (4.1, 4.4) says that the operation fails with DataNotLoaded when
  the required fields are absent. The exception is the one \<^verbatim>\<open>svXvt\<close> throws for the
  same check.
\<close>

definition DataNotLoaded :: error where
  "DataNotLoaded = InvalidRequest ''Data not loaded''"

definition OrbitEph_isHealthy :: "BDSEphemeris \<Rightarrow> error + bool" where
  "OrbitEph_isHealthy r = (if \<not> dataLoadedFlag r then Inl DataNotLoaded else Inr True)"

definition OrbitEph_adjustValidity :: "BDSEphemeris \<Rightarrow> error + unit" where
  "OrbitEph_adjustValidity r = (if \<not> dataLoadedFlag r then Inl DataNotLoaded else Inr ())"

definition isHealthy :: "BDSEphemeris \<Rightarrow> error + bool" where
  "isHealthy r =
     (case OrbitEph_isHealthy r of
        Inl e \<Rightarrow> Inl e
      | Inr _ \<Rightarrow> if health r = 0 then Inr True else Inr False)"

definition adjustValidity :: "BDSEphemeris \<Rightarrow> error + BDSEphemeris" where
  "adjustValidity r =
     (case OrbitEph_adjustValidity r of
        Inl e \<Rightarrow> Inl e
      | Inr _ \<Rightarrow>
          let r1 = r\<lparr>beginValid := ctToe r\<rparr>;
              r2 = (if transmitTime r1 > beginValid r1
                    then r1\<lparr>beginValid := transmitTime r1\<rparr> else r1)
          in Inr (r2\<lparr>endValid := ctToe r2 + 3600.0\<rparr>))"

subsection \<open>svXvt\<close>

text \<open>
  The C library functions the source calls. \<^verbatim>\<open>fmod x y\<close> is \<open>x - n * y\<close> with \<open>n\<close>
  the quotient \<open>x / y\<close> truncated towards zero; \<^verbatim>\<open>atan2 y x\<close> is the angle of the
  point \<open>(x, y)\<close> in \<open>(-\<pi>, \<pi>]\<close>. \<^verbatim>\<open>::sin\<close>, \<^verbatim>\<open>::cos\<close>, \<^verbatim>\<open>fabs\<close> and
  \<^verbatim>\<open>SQRT\<close> are \<^const>\<open>sin\<close>, \<^const>\<open>cos\<close>, \<^const>\<open>abs\<close> and \<^const>\<open>sqrt\<close> on the
  reals. Division by zero and the square root of a negative number give an IEEE
  infinity or NaN in the source and some real number here; none of the concrete
  inputs below meets such a value.
\<close>

definition trunc :: "real \<Rightarrow> int" where
  "trunc q = (if 0 \<le> q then \<lfloor>q\<rfloor> else \<lceil>q\<rceil>)"

definition fmod :: "real \<Rightarrow> real \<Rightarrow> real" where
  "fmod a b = a - of_int (trunc (a / b)) * b"

definition atan2 :: "real \<Rightarrow> real \<Rightarrow> real" where
  "atan2 b a =
     (if 0 < a then arctan (b / a)
      else if a < 0 \<and> 0 \<le> b then arctan (b / a) + pi
      else if a < 0 then arctan (b / a) - pi
      else if 0 < b then pi / 2
      else if b < 0 then - pi / 2
      else 0)"

text \<open>
  \<^verbatim>\<open>gpstk::Matrix<double>\<close>: the list of the rows. The product is the only matrix
  operation of \<^verbatim>\<open>svXvt\<close>, on operands whose dimensions agree.
\<close>

type_synonym Matrix = "real list list"

definition column :: "Matrix \<Rightarrow> nat \<Rightarrow> real list" where
  "column m j = map (\<lambda>row. row ! j) m"

definition dot :: "real list \<Rightarrow> real list \<Rightarrow> real" where
  "dot u u' = sum_list (map2 (*) u u')"

definition mat_mult :: "Matrix \<Rightarrow> Matrix \<Rightarrow> Matrix" where
  "mat_mult m m' =
     map (\<lambda>row. map (\<lambda>j. dot row (column m' j)) [0 ..< length (hd m')]) m"

definition elem :: "Matrix \<Rightarrow> nat \<Rightarrow> nat \<Rightarrow> real" where
  "elem m i j = m ! i ! j"

text \<open>
  The \<^verbatim>\<open>do { ... } while ((fabs(delea) > 1.0e-11) && (loop_cnt <= 20))\<close> loop of
  lines 223 to 230. The arguments are the loop's variables on entry of the body; the
  result is \<open>(ea, delea, loop_cnt)\<close> on exit, the three values line 232 prints.
\<close>

function kepler_loop :: "real \<Rightarrow> real \<Rightarrow> real \<Rightarrow> int \<Rightarrow> real \<times> real \<times> int" where
  "kepler_loop meana lecc ea loop_cnt =
     (let F = meana - (ea - lecc * sin ea);
          G = 1.0 - lecc * cos ea;
          delea = F / G;
          ea' = ea + delea;
          loop_cnt' = loop_cnt + 1
      in if \<bar>delea\<bar> > 1 / 10 ^ 11 \<and> loop_cnt' \<le> 20
         then kepler_loop meana lecc ea' loop_cnt'
         else (ea', delea, loop_cnt'))"
  by pat_completeness auto
termination
  by (relation "measure (\<lambda>(meana, lecc, ea, loop_cnt). nat (20 - loop_cnt))") auto

declare kepler_loop.simps [simp del]

text \<open>
  Lines 194 to 230 of \<^verbatim>\<open>svXvt\<close>: the elapsed time, the mean anomaly and the Kepler
  iteration from \<open>ea = meana + lecc * sin meana\<close> with \<open>loop_cnt = 1\<close>.
\<close>

definition GEO_kepler :: "collab \<Rightarrow> BDSEphemeris \<Rightarrow> CommonTime \<Rightarrow> real \<times> real \<times> int" where
  "GEO_kepler c r t =
     (let sqrtgm = sqrt (ell_gm c);
          twoPI = 2.0 * PI c;
          lecc = ecc r;
          Ahalf = sqrt (A r);
          elapte = t - ctToe r;
          dnA = dn r + 0.5 * dndot r * elapte;
          amm = (sqrtgm / (A r * Ahalf)) + dnA;
          meana = M0 r + elapte * amm;
          meana = fmod meana twoPI;
          ea = meana + lecc * sin meana
      in kepler_loop meana lecc ea 1)"

text \<open>
  Lines 240 to 299: from the eccentric anomaly the loop left in \<open>ea\<close> to the
  "GEO satellite coordinates in user-defined inertial system" \<open>(xGK, yGK, zGK)\<close>.
\<close>

definition GEO_inertialPos :: "collab \<Rightarrow> BDSEphemeris \<Rightarrow> CommonTime \<Rightarrow> real \<Rightarrow> Triple" where
  "GEO_inertialPos c r t ea =
     (let lecc = ecc r;
          tdrinc = idot r;
          ToeSOW = GPSWeekSecond_sow c (ctToe r);
          elapte = t - ctToe r;
          Ak = A r + Adot r * elapte;
          q = sqrt (1.0 - lecc * lecc);
          sinea = sin ea;
          cosea = cos ea;
          G = 1.0 - lecc * cosea;
          GSTA = q * sinea;
          GCTA = cosea - lecc;
          truea = atan2 GSTA GCTA;
          alat = truea + w r;
          talat = 2.0 * alat;
          c2al = cos talat;
          s2al = sin talat;
          du = c2al * Cuc r + s2al * Cus r;
          dr = c2al * Crc r + s2al * Crs r;
          di = c2al * Cic r + s2al * Cis r;
          U = alat + du;
          R = Ak * G + dr;
          AINC = i0 r + tdrinc * elapte + di;
          ANLON = OMEGA0 r + OMEGAdot r * elapte - ell_angVelocity c * ToeSOW;
          cosu = cos U;
          sinu = sin U;
          xip = R * cosu;
          yip = R * sinu;
          can = cos ANLON;
          san = sin ANLON;
          cinc = cos AINC;
          sinc = sin AINC;
          xGK = xip * can - yip * cinc * san;
          yGK = xip * san + yip * cinc * can;
          zGK = yip * sinc
      in (xGK, yGK, zGK))"

text \<open>Lines 304 to 320, the matrix the source builds under the comment "Rz matrix".\<close>

definition matZ :: "collab \<Rightarrow> BDSEphemeris \<Rightarrow> CommonTime \<Rightarrow> Matrix" where
  "matZ c r t =
     (let elapte = t - ctToe r;
          angleZ = ell_angVelocity c * elapte;
          cosZ = cos angleZ;
          sinZ = sin angleZ
      in [[1.0, 0.0, 0.0],
          [0.0, cosZ, sinZ],
          [0.0, - sinZ, cosZ]])"

text \<open>Lines 322 to 335, the matrix the source builds under the comment "Rx matrix".\<close>

definition matX :: "collab \<Rightarrow> Matrix" where
  "matX c =
     (let angleX = - 5.0 * PI c / 180.0;
          cosX = cos angleX;
          sinX = sin angleX
      in [[cosX, sinX, 0.0],
          [- sinX, cosX, 0.0],
          [0.0, 0.0, 1.0]])"

text \<open>
  The GEO branch of \<^verbatim>\<open>svXvt\<close> (from line 171 on). The \<^verbatim>\<open>cout\<close> trace lines are
  left out: they change no variable.
\<close>

definition svXvt_GEO :: "collab \<Rightarrow> BDSEphemeris \<Rightarrow> CommonTime \<Rightarrow> Xvt" where
  "svXvt_GEO c r t =
     (let (ea, delea, loop_cnt) = GEO_kepler c r t;
          (xGK, yGK, zGK) = GEO_inertialPos c r t ea;
          inertialPos = [[xGK], [yGK], [zGK]];
          result = mat_mult (mat_mult (matZ c r t) (matX c)) inertialPos
      in \<lparr>x = (elem result 0 0, elem result 1 0, elem result 2 0),
          v = (0.0, 0.0, 0.0),
          clkbias = OrbitEph_svClockBias c r t,
          clkdrift = OrbitEph_svClockDrift c r t,
          relcorr = OrbitEph_svRelativity c r t,
          frame = WGS84\<rparr>)"

definition svXvt :: "collab \<Rightarrow> BDSEphemeris \<Rightarrow> CommonTime \<Rightarrow> error + Xvt" where
  "svXvt c r t =
     (if \<not> dataLoadedFlag r then Inl (InvalidRequest ''Data not loaded'')
      else if id_sat (satID r) > 5 then OrbitEph_svXvt c r t
      else Inr (svXvt_GEO c r t))"

section \<open>GalEphemerisStore\<close>

text \<open>
  \<^verbatim>\<open>findEphemeris\<close>; \<^verbatim>\<open>OrbitEphStore::findOrbitEph\<close> is a parameter, its null
  pointer is \<^const>\<open>None\<close>.
\<close>

definition findEphemeris ::
  "(SatID \<Rightarrow> CommonTime \<Rightarrow> 'eph option) \<Rightarrow> SatID \<Rightarrow> CommonTime \<Rightarrow> error + 'eph" where
  "findEphemeris findOrbitEph sat t =
     (if system sat \<noteq> systemBeiDou then Inl (InvalidRequest ''Invalid satellite system'')
      else case findOrbitEph sat t of
             None \<Rightarrow> Inl (InvalidRequest ''Ephemeris not found'')
           | Some eph \<Rightarrow> Inr eph)"

section \<open>Concrete inputs\<close>

text \<open>
  A record of a geostationary satellite (PRN 1) on a circular equatorial orbit with
  reference epoch at the start of the week, and the same record under PRN 6.
\<close>

definition geoEph :: BDSEphemeris where
  "geoEph =
     \<lparr>dataLoadedFlag = True, satID = \<lparr>id_sat = 1, system = systemBeiDou\<rparr>,
      ctToe = 0, transmitTime = 0, beginValid = 0, endValid = 3600, health = 0,
      A = 42164000, Adot = 0, ecc = 0, dn = 0, dndot = 0, M0 = 0, w = 0,
      OMEGA0 = 0, OMEGAdot = 0, i0 = 0, idot = 0,
      Cuc = 0, Cus = 0, Crc = 0, Crs = 0, Cic = 0, Cis = 0\<rparr>"

definition meoEph :: BDSEphemeris where
  "meoEph = geoEph\<lparr>satID := \<lparr>id_sat = 6, system = systemBeiDou\<rparr>\<rparr>"

text \<open>The same record under the identifier 0, which is no PRN.\<close>

definition prn0Eph :: BDSEphemeris where
  "prn0Eph = geoEph\<lparr>satID := \<lparr>id_sat = 0, system = systemBeiDou\<rparr>\<rparr>"

text \<open>
  The same record on a nearly parabolic orbit: the eccentricity is \<open>1 - 1 / 2 ^ 53\<close>,
  the largest \<^verbatim>\<open>double\<close> below 1, and the mean anomaly at epoch is \<open>1 / 2 ^ 53\<close>.
  Both are values of a \<^verbatim>\<open>double\<close>. At the reference epoch the first Newton step
  of the Kepler loop goes from about \<open>1 / 2 ^ 52\<close> to about 1, and every later step
  shrinks the eccentric anomaly by a factor of about 2/3 only, so that twenty passes
  do not bring the increment under the threshold.
\<close>

definition nearParabolicEph :: BDSEphemeris where
  "nearParabolicEph = geoEph\<lparr>ecc := 1 - 1 / 2 ^ 53, M0 := 1 / 2 ^ 53\<rparr>"

text \<open>
  An instance of the parameters: the values of \<^verbatim>\<open>PI\<close>, \<^verbatim>\<open>gm()\<close> and
  \<^verbatim>\<open>angVelocity()\<close> in GPSTk, seconds of week counted from time \<open>0\<close>, and
  stand-ins for the \<^verbatim>\<open>OrbitEph\<close> members, on which no result below depends.
\<close>

definition collab0 :: collab where
  "collab0 =
     \<lparr>PI = 3.1415926535898, ell_gm = 3986004.418 * 10 ^ 8, ell_angVelocity = 7.292115 / 10 ^ 5,
      GPSWeekSecond_sow = (\<lambda>ct. ct - 604800 * of_int \<lfloor>ct / 604800\<rfloor>),
      OrbitEph_svRelativity = (\<lambda>r t. 0),
      OrbitEph_svClockBias = (\<lambda>r t. 0),
      OrbitEph_svClockDrift = (\<lambda>r t. 0),
      OrbitEph_svXvt = (\<lambda>r t. Inl (InvalidRequest ''OrbitEph::svXvt''))\<rparr>"

section \<open>The rotations as the specification words them\<close>

text \<open>
  The specification (4.2, Variant B) asks for "a fixed rotation about the first axis
  by a small constant tilt angle" and "a time-dependent rotation about the third axis
  by earthRotationRate * elapsed", composed as (third-axis rotation) after (first-axis
  rotation) on the intermediate vector. The elementary rotations, with the sign
  convention of the source's matrices:
\<close>

definition spec_rot_first :: "real \<Rightarrow> Matrix" where
  "spec_rot_first \<phi> =
     [[1, 0, 0],
      [0, cos \<phi>, sin \<phi>],
      [0, - sin \<phi>, cos \<phi>]]"

definition spec_rot_third :: "real \<Rightarrow> Matrix" where
  "spec_rot_third \<phi> =
     [[cos \<phi>, sin \<phi>, 0],
      [- sin \<phi>, cos \<phi>, 0],
      [0, 0, 1]]"

definition spec_GEO_position :: "collab \<Rightarrow> BDSEphemeris \<Rightarrow> CommonTime \<Rightarrow> real \<Rightarrow> Triple" where
  "spec_GEO_position c r t ea =
     (let (xGK, yGK, zGK) = GEO_inertialPos c r t ea;
          earth = spec_rot_third (ell_angVelocity c * (t - ctToe r));
          tilt = spec_rot_first (- 5 * PI c / 180);
          result = mat_mult (mat_mult earth tilt) [[xGK], [yGK], [zGK]]
      in (elem result 0 0, elem result 1 0, elem result 2 0))"

section \<open>The Kepler iteration as the specification words it\<close>

text \<open>
  The specification (4.2, Variant A, shared by Variant B) starts from
  \<open>E(0) = M + e sin M\<close> and repeats \<open>E \<leftarrow> E + (M - E + e sin E) / (1 - e cos E)\<close>.
  One such step:
\<close>

definition spec_kepler_step :: "real \<Rightarrow> real \<Rightarrow> real \<Rightarrow> real" where
  "spec_kepler_step M e E = E + (M - E + e * sin E) / (1 - e * cos E)"

text \<open>
  The mean anomaly that lines 205 to 220 of \<^verbatim>\<open>svXvt\<close> hand to the loop, as in
  \<^const>\<open>GEO_kepler\<close>.
\<close>

definition GEO_meana :: "collab \<Rightarrow> BDSEphemeris \<Rightarrow> CommonTime \<Rightarrow> real" where
  "GEO_meana c r t =
     fmod (M0 r + (t - ctToe r)
             * (sqrt (ell_gm c) / (A r * sqrt (A r)) + (dn r + 0.5 * dndot r * (t - ctToe r))))
          (2.0 * PI c)"

section \<open>Auxiliary lemmas\<close>

lemma kepler_step:
  "kepler_loop meana lecc ea n =
     (if \<bar>(meana - (ea - lecc * sin ea)) / (1 - lecc * cos ea)\<bar> > 1 / 10 ^ 11 \<and> n + 1 \<le> 20
      then kepler_loop meana lecc (ea + (meana - (ea - lecc * sin ea)) / (1 - lecc * cos ea)) (n + 1)
      else (ea + (meana - (ea - lecc * sin ea)) / (1 - lecc * cos ea),
            (meana - (ea - lecc * sin ea)) / (1 - lecc * cos ea), n + 1))"
  by (subst kepler_loop.simps) (simp add: Let_def)

lemma kepler_circ: "GEO_kepler c geoEph 0 = (0, 0, 2)"
  by (simp add: GEO_kepler_def geoEph_def Let_def fmod_def trunc_def kepler_step)

lemma inertial_circ: "GEO_inertialPos collab0 geoEph 0 0 = (42164000, 0, 0)"
  by (simp add: GEO_inertialPos_def geoEph_def collab0_def Let_def atan2_def)

lemma mat33_31:
  "mat_mult [[a11, a12, a13], [a21, a22, a23], [a31, a32, a33]] [[b1], [b2], [b3]] =
   [[a11 * b1 + a12 * b2 + a13 * b3], [a21 * b1 + a22 * b2 + a23 * b3],
    [a31 * b1 + a32 * b2 + a33 * b3]]"
  by (simp add: mat_mult_def dot_def column_def add.assoc)

lemma mat33_33:
  "mat_mult [[a11, a12, a13], [a21, a22, a23], [a31, a32, a33]]
            [[b11, b12, b13], [b21, b22, b23], [b31, b32, b33]] =
   [[a11 * b11 + a12 * b21 + a13 * b31, a11 * b12 + a12 * b22 + a13 * b32,
     a11 * b13 + a12 * b23 + a13 * b33],
    [a21 * b11 + a22 * b21 + a23 * b31, a21 * b12 + a22 * b22 + a23 * b32,
     a21 * b13 + a22 * b23 + a23 * b33],
    [a31 * b11 + a32 * b21 + a33 * b31, a31 * b12 + a32 * b22 + a33 * b32,
     a31 * b13 + a32 * b23 + a33 * b33]]"
  by (simp add: mat_mult_def dot_def column_def add.assoc upt_rec)

lemma svXvt_GEO_branch:
  "dataLoadedFlag r \<Longrightarrow> id_sat (satID r) \<le> 5 \<Longrightarrow> svXvt c r t = Inr (svXvt_GEO c r t)"
  by (simp add: svXvt_def)

lemma svXvt_GEO_x:
  "x (svXvt_GEO c r t) =
     (let (xGK, yGK, zGK) = GEO_inertialPos c r t (fst (GEO_kepler c r t));
          result = mat_mult (mat_mult (matZ c r t) (matX c)) [[xGK], [yGK], [zGK]]
      in (elem result 0 0, elem result 1 0, elem result 2 0))"
  by (simp add: svXvt_GEO_def Let_def split_beta)

lemma svXvt_GEO_v: "v (svXvt_GEO c r t) = (0, 0, 0)"
  by (simp add: svXvt_GEO_def Let_def split_beta)

lemma collab_fields_indep:
  "PI (c\<lparr>OrbitEph_svXvt := f\<rparr>) = PI c"
  "ell_gm (c\<lparr>OrbitEph_svXvt := f\<rparr>) = ell_gm c"
  "ell_angVelocity (c\<lparr>OrbitEph_svXvt := f\<rparr>) = ell_angVelocity c"
  "GPSWeekSecond_sow (c\<lparr>OrbitEph_svXvt := f\<rparr>) = GPSWeekSecond_sow c"
  "OrbitEph_svRelativity (c\<lparr>OrbitEph_svXvt := f\<rparr>) = OrbitEph_svRelativity c"
  "OrbitEph_svClockBias (c\<lparr>OrbitEph_svXvt := f\<rparr>) = OrbitEph_svClockBias c"
  "OrbitEph_svClockDrift (c\<lparr>OrbitEph_svXvt := f\<rparr>) = OrbitEph_svClockDrift c"
  by simp_all

lemma svXvt_GEO_indep:
  "svXvt_GEO (c\<lparr>OrbitEph_svXvt := f\<rparr>) r t = svXvt_GEO c r t"
  by (simp only: svXvt_GEO_def GEO_kepler_def GEO_inertialPos_def matZ_def matX_def
        collab_fields_indep)

lemma tilt_sin_pos: "0 < sin (5 * PI collab0 / 180)"
proof (rule sin_gt_zero)
  show "0 < 5 * PI collab0 / 180" by (simp add: collab0_def)
  have "5 * PI collab0 / 180 < 2" by (simp add: collab0_def)
  then show "5 * PI collab0 / 180 < pi" using pi_ge_two by linarith
qed

lemma code_pos_circ:
  "x (svXvt_GEO collab0 geoEph 0) =
     (42164000 * cos (5 * PI collab0 / 180), 42164000 * sin (5 * PI collab0 / 180), 0)"
proof -
  have Z: "matZ collab0 geoEph 0 = [[1, 0, 0], [0, 1, 0], [0, 0, 1]]"
    by (simp add: matZ_def geoEph_def Let_def)
  have X: "matX collab0 =
             [[cos (5 * PI collab0 / 180), - sin (5 * PI collab0 / 180), 0],
              [sin (5 * PI collab0 / 180), cos (5 * PI collab0 / 180), 0],
              [0, 0, 1]]"
    by (simp add: matX_def Let_def)
  show ?thesis
    unfolding svXvt_GEO_x kepler_circ fst_conv inertial_circ Z X
    by (simp add: mat33_33 mat33_31 elem_def)
qed

lemma spec_pos_circ: "spec_GEO_position collab0 geoEph 0 0 = (42164000, 0, 0)"
proof -
  have Z: "spec_rot_third (ell_angVelocity collab0 * (0 - ctToe geoEph)) = [[1, 0, 0], [0, 1, 0], [0, 0, 1]]"
    by (simp add: spec_rot_third_def geoEph_def)
  show ?thesis
    unfolding spec_GEO_position_def inertial_circ Z spec_rot_first_def
    by (simp add: mat33_33 mat33_31 elem_def)
qed

lemma sin_taylor: "\<bar>sin (u::real) - (u - u ^ 3 / 6)\<bar> \<le> \<bar>u\<bar> ^ 5 / 120"
proof -
  have sm: "(\<Sum>m<5. sin_coeff m * u ^ m) = u - u ^ 3 / 6"
    by (simp add: sin_coeff_Suc cos_coeff_Suc eval_nat_numeral)
  have f5: "inverse (fact 5) = (1 / 120 :: real)"
    by (simp add: eval_nat_numeral)
  have "\<bar>sin u - (u - u ^ 3 / 6)\<bar> \<le> 1 / 120 * \<bar>u\<bar> ^ 5"
    using Maclaurin_sin_bound [of u 5] unfolding sm f5 .
  then show ?thesis by simp
qed

lemma cos_taylor: "\<bar>cos (u::real) - (1 - u\<^sup>2 / 2)\<bar> \<le> u ^ 4 / 24"
proof -
  obtain s where s: "cos u = (\<Sum>m<4. cos_coeff m * u ^ m) + (cos (s + 1 / 2 * real 4 * pi) / fact 4) * u ^ 4"
    using Maclaurin_cos_expansion [of u 4] by blast
  have sm: "(\<Sum>m<4. cos_coeff m * u ^ m) = 1 - u\<^sup>2 / 2"
    by (simp add: sin_coeff_Suc cos_coeff_Suc eval_nat_numeral)
  have f4: "fact 4 = (24::real)" by (simp add: eval_nat_numeral)
  have eq: "cos u - (1 - u\<^sup>2 / 2) = cos (s + 1 / 2 * real 4 * pi) * (u ^ 4 / 24)"
    unfolding s sm f4 by simp
  have "0 \<le> u ^ 4 / 24" by simp
  then have "\<bar>cos (s + 1 / 2 * real 4 * pi) * (u ^ 4 / 24)\<bar> \<le> 1 * (u ^ 4 / 24)"
    unfolding abs_mult by (intro mult_mono) (simp_all add: abs_cos_le_one)
  then show ?thesis unfolding eq by simp
qed

text \<open>Polynomial bounds on the sine and cosine of a non-negative argument.\<close>

lemma trig_bounds:
  fixes E :: real
  assumes E0: "0 \<le> E"
  shows "E - E ^ 3 / 6 - E ^ 5 / 120 \<le> sin E" "sin E \<le> E - E ^ 3 / 6 + E ^ 5 / 120"
        "1 - E\<^sup>2 / 2 - E ^ 4 / 24 \<le> cos E" "cos E \<le> 1 - E\<^sup>2 / 2 + E ^ 4 / 24"
proof -
  have "\<bar>E\<bar> ^ 5 = E ^ 5" using E0 by simp
  then have s: "\<bar>sin E - (E - E ^ 3 / 6)\<bar> \<le> E ^ 5 / 120"
    using sin_taylor [of E] by simp
  show "E - E ^ 3 / 6 - E ^ 5 / 120 \<le> sin E" using s by linarith
  show "sin E \<le> E - E ^ 3 / 6 + E ^ 5 / 120" using s by linarith
  show "1 - E\<^sup>2 / 2 - E ^ 4 / 24 \<le> cos E" using cos_taylor [of E] by linarith
  show "cos E \<le> 1 - E\<^sup>2 / 2 + E ^ 4 / 24" using cos_taylor [of E] by linarith
qed

lemma newton_slow_step:
  fixes \<epsilon> E :: real
  assumes eps: "0 < \<epsilon>" "\<epsilon> \<le> 1 / 10 ^ 15"
      and E: "1 / 20000 \<le> E" "E \<le> 21 / 20"
  defines "d \<equiv> (\<epsilon> - (E - (1 - \<epsilon>) * sin E)) / (1 - (1 - \<epsilon>) * cos E)"
  shows "d < - (1 / 10 ^ 11)" and "3 / 5 * E \<le> E + d" and "E + d \<le> E"
proof -
  have Epos: "0 < E" using E by simp
  note tb = trig_bounds [of E, OF less_imp_le [OF Epos]]
  have p2: "E\<^sup>2 \<le> 441 / 400"
    using power_mono [of E "21 / 20" 2] E Epos by (simp add: power2_eq_square)
  have p2lo: "1 / 400000000 \<le> E\<^sup>2"
    using power_mono [of "1 / 20000" E 2] E by (simp add: power2_eq_square)
  have p3: "E ^ 3 = E * E\<^sup>2" by (simp add: power2_eq_square power3_eq_cube)
  have p4: "E ^ 4 = E\<^sup>2 * E\<^sup>2" by (simp add: power2_eq_square eval_nat_numeral)
  have p5: "E ^ 5 = E ^ 3 * E\<^sup>2" by (simp add: power2_eq_square eval_nat_numeral)
  have e3pos: "0 \<le> E ^ 3" using Epos by simp
  have e3hi: "E ^ 3 \<le> 441 / 400 * E"
    unfolding p3 using mult_left_mono [OF p2, of E] Epos by (simp add: mult.commute)
  have e3lo: "1 / 400000000 * E \<le> E ^ 3"
    unfolding p3 using mult_left_mono [OF p2lo, of E] Epos by (simp add: mult.commute)
  have e3lo2: "1 / 20000 * E\<^sup>2 \<le> E ^ 3"
    unfolding p3 using mult_right_mono [OF E(1), of "E\<^sup>2"] by (simp add: mult.commute)
  have e4: "E ^ 4 \<le> 441 / 400 * E\<^sup>2"
    unfolding p4 using mult_right_mono [OF p2, of "E\<^sup>2"] by simp
  have e5: "E ^ 5 \<le> 441 / 400 * E ^ 3"
    unfolding p5 using mult_left_mono [OF p2, of "E ^ 3"] e3pos by (simp add: mult.commute)
  have e5pos: "0 \<le> E ^ 5" using Epos by simp
  have e4pos: "0 \<le> E ^ 4" by simp
  have sin_pos: "0 \<le> sin E" using tb(1) e5 e3hi Epos by linarith
  have sin_le: "sin E \<le> E" using tb(2) e5 e3pos by linarith
  have cos_pos: "0 \<le> cos E" using tb(3) e4 p2 by linarith
  have es0: "0 \<le> \<epsilon> * sin E" using eps sin_pos by simp
  have es1: "\<epsilon> * sin E \<le> \<epsilon> * E" using eps sin_le by simp
  have ec0: "0 \<le> \<epsilon> * cos E" using eps cos_pos by simp
  have ec1: "\<epsilon> * cos E \<le> \<epsilon>" using eps mult_left_mono [of "cos E" 1 \<epsilon>] by simp
  have eE: "\<epsilon> * E \<le> 1 / 1000000000000000 * E" using eps Epos by simp
  define f where "f = E - (1 - \<epsilon>) * sin E - \<epsilon>"
  define g where "g = 1 - (1 - \<epsilon>) * cos E"
  have f_eq: "f = E - sin E + \<epsilon> * sin E - \<epsilon>" by (simp add: f_def algebra_simps)
  have g_eq: "g = 1 - cos E + \<epsilon> * cos E" by (simp add: g_def algebra_simps)
  have d_eq: "d = - (f / g)" by (simp add: d_def f_def g_def algebra_simps minus_divide_left)
  have gl: "E\<^sup>2 / 2 - E ^ 4 / 24 \<le> g" using g_eq tb(4) ec0 by linarith
  have gu: "g \<le> E\<^sup>2 / 2 + E ^ 4 / 24 + \<epsilon>" using g_eq tb(3) ec1 by linarith
  have g_pos: "0 < g" using gl e4 p2lo by linarith
  have fu: "f \<le> E ^ 3 / 6 + E ^ 5 / 120 + \<epsilon> * E" using f_eq tb(1) es1 eps by linarith
  have fl: "E ^ 3 / 6 - E ^ 5 / 120 - \<epsilon> \<le> f" using f_eq tb(2) es0 by linarith
  have eps': "\<epsilon> \<le> 1 / 1000000000000000" using eps by simp
  have b: "1 / 100000000000 * g < f"
    using fl gu e5 e4 e3lo2 p2lo eps(1) eps' by linarith
  then have "1 / 100000000000 < f / g" using g_pos by (simp add: pos_less_divide_eq)
  then show "d < - (1 / 10 ^ 11)" unfolding d_eq by simp
  have f_pos: "0 < f" using b g_pos by linarith
  then have "0 < f / g" using g_pos by simp
  then show "E + d \<le> E" unfolding d_eq by linarith
  have Eg: "E * (E\<^sup>2 / 2 - E ^ 4 / 24) \<le> E * g"
    using mult_left_mono [OF gl, of E] Epos by simp
  have Eg': "E * (E\<^sup>2 / 2 - E ^ 4 / 24) = E ^ 3 / 2 - E ^ 5 / 24"
    by (simp add: algebra_simps power2_eq_square eval_nat_numeral)
  have "f \<le> 2 / 5 * (E * g)"
    using fu Eg Eg' e5 e3lo eE Epos by linarith
  then have a: "f \<le> 2 / 5 * E * g" by simp
  then have "f / g \<le> 2 / 5 * E" using g_pos by (simp add: pos_divide_le_eq)
  then show "3 / 5 * E \<le> E + d" unfolding d_eq by linarith
qed


lemma newton_first_step:
  fixes \<epsilon> :: real
  assumes eps: "0 < \<epsilon>" "\<epsilon> \<le> 1 / 10 ^ 15"
  defines "E0 \<equiv> \<epsilon> + (1 - \<epsilon>) * sin \<epsilon>"
  defines "d \<equiv> (\<epsilon> - (E0 - (1 - \<epsilon>) * sin E0)) / (1 - (1 - \<epsilon>) * cos E0)"
  shows "1 / 10 ^ 11 < d" and "9 / 10 \<le> E0 + d" and "E0 + d \<le> 21 / 20"
proof -
  have eps': "\<epsilon> \<le> 1 / 1000000000000000" using eps by simp
  define s where "s = sin \<epsilon>"
  have s_le: "s \<le> \<epsilon>" unfolding s_def using sin_x_le_x [of \<epsilon>] eps by simp
  have s_ge: "0 \<le> s"
  proof -
    have "\<epsilon> < pi" using eps' pi_ge_two by linarith
    then show ?thesis unfolding s_def using sin_ge_zero [of \<epsilon>] eps by simp
  qed
  have es0: "0 \<le> \<epsilon> * s" using eps s_ge by simp
  have es1: "\<epsilon> * s \<le> \<epsilon> * \<epsilon>" using eps s_le by simp
  have ee: "\<epsilon> * \<epsilon> \<le> 1 / 1000000000000000 * \<epsilon>"
    using mult_right_mono [OF eps', of \<epsilon>] eps by simp
  have E0_eq: "E0 = \<epsilon> + s - \<epsilon> * s" by (simp add: E0_def s_def algebra_simps)
  have E0_lo: "0 \<le> E0" using E0_eq s_ge es1 ee eps by linarith
  have E0_hi: "E0 \<le> 2 * \<epsilon>" using E0_eq s_le es0 by linarith
  have E0_hi': "E0 \<le> 2 / 1000000000000000" using E0_hi eps' by linarith
  note tb = trig_bounds [of E0, OF E0_lo]
  have q2: "E0\<^sup>2 \<le> 4 / 1000000000000000 * \<epsilon>"
  proof -
    have "E0 * E0 \<le> (2 / 1000000000000000) * (2 * \<epsilon>)"
      using mult_mono [OF E0_hi' E0_hi] E0_lo by simp
    also have "\<dots> = 4 / 1000000000000000 * \<epsilon>" by simp
    finally show ?thesis by (simp add: power2_eq_square)
  qed
  have q2pos: "0 \<le> E0\<^sup>2" by simp
  have q2small: "E0\<^sup>2 \<le> 1 / 100" using q2 eps eps' by linarith
  have q3: "E0 ^ 3 \<le> 1 / 100 * E0"
  proof -
    have "E0 ^ 3 = E0\<^sup>2 * E0" by (simp add: power2_eq_square power3_eq_cube)
    then show ?thesis using mult_right_mono [OF q2small E0_lo] by simp
  qed
  have q3': "E0 ^ 3 \<le> 4 / 1000000000000000 * \<epsilon>"
  proof -
    have "E0 ^ 3 = E0\<^sup>2 * E0" by (simp add: power2_eq_square power3_eq_cube)
    also have "\<dots> \<le> E0\<^sup>2 * 1"
      using mult_left_mono [of E0 1 "E0\<^sup>2"] E0_hi' by simp
    finally show ?thesis using q2 by simp
  qed
  have q3pos: "0 \<le> E0 ^ 3" using E0_lo by simp
  have q4: "E0 ^ 4 \<le> E0\<^sup>2"
  proof -
    have "E0 ^ 4 = E0\<^sup>2 * E0\<^sup>2" by (simp add: power2_eq_square eval_nat_numeral)
    then show ?thesis using mult_left_mono [of "E0\<^sup>2" 1 "E0\<^sup>2"] q2small by simp
  qed
  have q5: "E0 ^ 5 \<le> E0 ^ 3"
  proof -
    have "E0 ^ 5 = E0 ^ 3 * E0\<^sup>2" by (simp add: power2_eq_square eval_nat_numeral)
    then show ?thesis using mult_left_mono [of "E0\<^sup>2" 1 "E0 ^ 3"] q2small q3pos by simp
  qed
  define S where "S = sin E0"
  define C where "C = cos E0"
  have S_hi: "S \<le> E0" unfolding S_def using sin_x_le_x [of E0] E0_lo by simp
  have S_lo: "E0 - 1 / 1000000000000000 * \<epsilon> \<le> S"
    unfolding S_def using tb(1) q5 q3' q3pos by linarith
  have S_pos: "0 \<le> S"
    unfolding S_def using tb(1) q5 q3 q3pos E0_lo by linarith
  have C_hi: "C \<le> 1" unfolding C_def by simp
  have C_lo: "1 - 3 / 1000000000000000 * \<epsilon> \<le> C"
    unfolding C_def using tb(3) q4 q2 q2pos by linarith
  have C_lo': "99 / 100 \<le> C" using C_lo eps eps' by linarith
  have eS0: "0 \<le> \<epsilon> * S" using eps S_pos by simp
  have eS1: "\<epsilon> * S \<le> 2 / 1000000000000000 * \<epsilon>"
  proof -
    have "S \<le> 2 / 1000000000000000" using S_hi E0_hi' by linarith
    then show ?thesis using mult_left_mono [of S "2 / 1000000000000000" \<epsilon>] eps by simp
  qed
  have eC0: "99 / 100 * \<epsilon> \<le> \<epsilon> * C"
    using mult_left_mono [OF C_lo', of \<epsilon>] eps by simp
  have eC1: "\<epsilon> * C \<le> \<epsilon>" using mult_left_mono [OF C_hi, of \<epsilon>] eps by simp
  define F where "F = \<epsilon> - (E0 - (1 - \<epsilon>) * S)"
  define G where "G = 1 - (1 - \<epsilon>) * C"
  have F_eq: "F = \<epsilon> - E0 + S - \<epsilon> * S" by (simp add: F_def algebra_simps)
  have G_eq: "G = 1 - C + \<epsilon> * C" by (simp add: G_def algebra_simps)
  have d_eq: "d = F / G" by (simp add: d_def F_def G_def S_def C_def)
  have F_hi: "F \<le> \<epsilon>" using F_eq S_hi eS0 by linarith
  have F_lo: "\<epsilon> - 3 / 1000000000000000 * \<epsilon> \<le> F" using F_eq S_lo eS1 by linarith
  have G_lo: "99 / 100 * \<epsilon> \<le> G" using G_eq C_hi eC0 by linarith
  have G_hi: "G \<le> \<epsilon> + 3 / 1000000000000000 * \<epsilon>" using G_eq C_lo eC1 by linarith
  have G_pos: "0 < G" using G_lo eps by linarith
  have "99 / 100 * G \<le> F" using F_lo G_hi eps by linarith
  then have d_lo: "99 / 100 \<le> d" unfolding d_eq using G_pos by (simp add: pos_le_divide_eq)
  have "F \<le> 102 / 100 * G" using F_hi G_lo eps by linarith
  then have d_hi: "d \<le> 102 / 100" unfolding d_eq using G_pos by (simp add: pos_divide_le_eq)
  show "1 / 10 ^ 11 < d" using d_lo by simp
  show "9 / 10 \<le> E0 + d" using d_lo E0_lo by linarith
  show "E0 + d \<le> 21 / 20" using d_hi E0_hi' by linarith
qed

lemma GEO_kepler_meana:
  "GEO_kepler c r t =
     kepler_loop (GEO_meana c r t) (ecc r)
       (GEO_meana c r t + ecc r * sin (GEO_meana c r t)) 1"
  by (simp add: GEO_kepler_def GEO_meana_def Let_def)

lemma kepler_step_spec:
  "kepler_loop meana lecc ea n =
     (if \<bar>spec_kepler_step meana lecc ea - ea\<bar> > 1 / 10 ^ 11 \<and> n + 1 \<le> 20
      then kepler_loop meana lecc (spec_kepler_step meana lecc ea) (n + 1)
      else (spec_kepler_step meana lecc ea, spec_kepler_step meana lecc ea - ea, n + 1))"
proof -
  have "meana - (ea - lecc * sin ea) = meana - ea + lecc * sin ea" by simp
  then show ?thesis
    by (subst kepler_step) (simp only: spec_kepler_step_def add_diff_cancel_left')
qed

lemma kepler_loop_funpow:
  "n \<le> 20 \<Longrightarrow>
     n < snd (snd (kepler_loop meana lecc ea n))
     \<and> snd (snd (kepler_loop meana lecc ea n)) \<le> 21
     \<and> fst (kepler_loop meana lecc ea n) =
         (spec_kepler_step meana lecc ^^ nat (snd (snd (kepler_loop meana lecc ea n)) - n)) ea
     \<and> fst (snd (kepler_loop meana lecc ea n)) =
         (spec_kepler_step meana lecc ^^ nat (snd (snd (kepler_loop meana lecc ea n)) - n)) ea
         - (spec_kepler_step meana lecc ^^ (nat (snd (snd (kepler_loop meana lecc ea n)) - n) - 1)) ea
     \<and> (snd (snd (kepler_loop meana lecc ea n)) \<le> 20 \<longrightarrow>
          \<bar>fst (snd (kepler_loop meana lecc ea n))\<bar> \<le> 1 / 10 ^ 11)"
proof (induction "nat (20 - n)" arbitrary: n ea)
  case 0
  then have n: "n = 20" by simp
  have "\<not> (20::int) + 1 \<le> 20" by simp
  then have eq: "kepler_loop meana lecc ea 20 =
      (spec_kepler_step meana lecc ea, spec_kepler_step meana lecc ea - ea, 20 + 1)"
    by (subst kepler_step_spec) (simp only: simp_thms if_False)
  show ?case
    unfolding n eq fst_conv snd_conv by simp
next
  case (Suc k)
  then have n: "n \<le> 19" and k: "k = nat (20 - (n + 1))" by simp_all
  let ?s = "spec_kepler_step meana lecc"
  show ?case
  proof (cases "\<bar>?s ea - ea\<bar> > 1 / 10 ^ 11")
    case True
    have rec: "kepler_loop meana lecc ea n = kepler_loop meana lecc (?s ea) (n + 1)"
      using True n by (subst kepler_step_spec) simp
    have n1: "n + 1 \<le> 20" using n by simp
    note IH = Suc.hyps(1) [OF k n1, where ea = "?s ea"]
    define R where "R = kepler_loop meana lecc (?s ea) (n + 1)"
    define cnt where "cnt = snd (snd R)"
    define j where "j = nat (cnt - (n + 1))"
    note IH' = IH [folded R_def, folded cnt_def, folded j_def]
    have c1: "n + 1 < cnt" and c2: "cnt \<le> 21"
      and c3: "fst R = (?s ^^ j) (?s ea)"
      and c4: "fst (snd R) = (?s ^^ j) (?s ea) - (?s ^^ (j - 1)) (?s ea)"
      and c5: "cnt \<le> 20 \<longrightarrow> \<bar>fst (snd R)\<bar> \<le> 1 / 10 ^ 11"
      using IH' by blast+
    have j: "nat (cnt - n) = Suc j" "0 < j"
      using c1 unfolding j_def by linarith+
    have shift: "(?s ^^ m) (?s ea) = (?s ^^ Suc m) ea" for m
      by (simp add: funpow_swap1)
    have j1: "(?s ^^ (j - 1)) (?s ea) = (?s ^^ j) ea"
      using j(2) shift [of "j - 1"] by simp
    have jj: "Suc j - 1 = j" by simp
    have sj: "Suc (j - 1) = j" using j(2) by simp
    have g1: "n < cnt" using c1 by simp
    have g3: "fst R = (?s ^^ nat (cnt - n)) ea"
      by (simp only: j(1) c3 shift)
    have g4: "fst (snd R) = (?s ^^ nat (cnt - n)) ea - (?s ^^ (nat (cnt - n) - 1)) ea"
      by (simp only: j(1) jj c4 shift sj)
    have "n < cnt \<and> cnt \<le> 21 \<and> fst R = (?s ^^ nat (cnt - n)) ea
          \<and> fst (snd R) = (?s ^^ nat (cnt - n)) ea - (?s ^^ (nat (cnt - n) - 1)) ea
          \<and> (cnt \<le> 20 \<longrightarrow> \<bar>fst (snd R)\<bar> \<le> 1 / 10 ^ 11)"
      using g1 c2 g3 g4 c5 by (intro conjI)
    then show ?thesis
      unfolding rec cnt_def R_def .
  next
    case False
    have eq: "kepler_loop meana lecc ea n = (?s ea, ?s ea - ea, n + 1)"
      by (subst kepler_step_spec) (simp only: False simp_thms if_False)
    have "nat (n + 1 - n) = Suc 0" by simp
    then show ?thesis
      unfolding eq fst_conv snd_conv using False n by simp
  qed
qed


lemma slow_lower_bound:
  fixes n :: int
  assumes "2 \<le> n" "n \<le> 20"
  shows "(1 / 20000 :: real) \<le> 9 / 10 * (3 / 5) ^ nat (n - 2)"
proof -
  have "nat (n - 2) \<le> 18" using assms by simp
  then have "((3 / 5) :: real) ^ 18 \<le> (3 / 5) ^ nat (n - 2)"
    by (intro power_decreasing) simp_all
  moreover have "(1 / 20000 :: real) \<le> 9 / 10 * (3 / 5) ^ 18" by (simp add: power_divide)
  ultimately show ?thesis by linarith
qed

lemma slow_loop_cap:
  fixes \<epsilon> E :: real and n :: int
  assumes eps: "0 < \<epsilon>" "\<epsilon> \<le> 1 / 10 ^ 15"
      and n: "2 \<le> n" "n \<le> 20"
      and E: "9 / 10 * (3 / 5) ^ nat (n - 2) \<le> E" "E \<le> 21 / 20"
  shows "snd (snd (kepler_loop \<epsilon> (1 - \<epsilon>) E n)) = 21
         \<and> \<bar>fst (snd (kepler_loop \<epsilon> (1 - \<epsilon>) E n))\<bar> > 1 / 10 ^ 11"
  using n E
proof (induction "nat (20 - n)" arbitrary: n E)
  case 0
  then have n20: "n = 20" by simp
  define d where "d = (\<epsilon> - (E - (1 - \<epsilon>) * sin E)) / (1 - (1 - \<epsilon>) * cos E)"
  have lo: "1 / 20000 \<le> E" using slow_lower_bound [of n] "0.prems" by linarith
  have d: "d < - (1 / 10 ^ 11)"
    unfolding d_def by (rule newton_slow_step (1) [OF eps lo "0.prems"(4)])
  have "\<not> (20::int) + 1 \<le> 20" by simp
  then have eq: "kepler_loop \<epsilon> (1 - \<epsilon>) E 20 = (E + d, d, 20 + 1)"
    unfolding d_def by (subst kepler_step) (simp only: simp_thms if_False)
  show ?case unfolding n20 eq fst_conv snd_conv using d by simp
next
  case (Suc k)
  then have n19: "n \<le> 19" and k: "k = nat (20 - (n + 1))" by simp_all
  define d where "d = (\<epsilon> - (E - (1 - \<epsilon>) * sin E)) / (1 - (1 - \<epsilon>) * cos E)"
  have lo: "1 / 20000 \<le> E" using slow_lower_bound [of n] Suc.prems by linarith
  note st = newton_slow_step [OF eps lo Suc.prems(4), folded d_def]
  have big: "\<bar>d\<bar> > 1 / 10 ^ 11" using st(1) by linarith
  have n1: "n + 1 \<le> 20" using n19 by simp
  have rec: "kepler_loop \<epsilon> (1 - \<epsilon>) E n = kepler_loop \<epsilon> (1 - \<epsilon>) (E + d) (n + 1)"
    unfolding d_def
    by (subst kepler_step) (simp only: big [unfolded d_def] n1 simp_thms if_True)
  have "nat (n + 1 - 2) = Suc (nat (n - 2))" using Suc.prems(1) by simp
  then have "(9 / 10 :: real) * (3 / 5) ^ nat (n + 1 - 2) = 3 / 5 * (9 / 10 * (3 / 5) ^ nat (n - 2))"
    by simp
  also have "\<dots> \<le> 3 / 5 * E" using Suc.prems(3) by simp
  finally have lo': "9 / 10 * (3 / 5) ^ nat (n + 1 - 2) \<le> E + d" using st(2) by linarith
  have hi': "E + d \<le> 21 / 20" using st(3) Suc.prems(4) by linarith
  have n2: "2 \<le> n + 1" using Suc.prems(1) by simp
  show ?case
    unfolding rec by (rule Suc.hyps(1) [OF k n2 n1 lo' hi'])
qed

lemma eps53: "(0::real) < 1 / 2 ^ 53" "(1::real) / 2 ^ 53 \<le> 1 / 10 ^ 15"
  by simp_all

lemma nearParabolic_fmod: "fmod (1 / 2 ^ 53) (2.0 * PI collab0) = 1 / 2 ^ 53"
proof -
  have a: "0 \<le> (1 / 2 ^ 53) / (2.0 * PI collab0)" by (simp add: collab0_def)
  have b: "(1 / 2 ^ 53) / (2.0 * PI collab0) < 1" by (simp add: collab0_def)
  have "\<lfloor>(1 / 2 ^ 53) / (2.0 * PI collab0)\<rfloor> = 0"
    using a b by (simp add: floor_eq_iff)
  then show ?thesis
    using a by (simp add: fmod_def trunc_def)
qed

lemma nearParabolic_meana: "GEO_meana collab0 nearParabolicEph 0 = 1 / 2 ^ 53"
proof -
  have "GEO_meana collab0 nearParabolicEph 0 = fmod (1 / 2 ^ 53) (2.0 * PI collab0)"
    by (simp add: GEO_meana_def nearParabolicEph_def geoEph_def)
  then show ?thesis by (simp only: nearParabolic_fmod)
qed

lemma nearParabolic_cap:
  "snd (snd (GEO_kepler collab0 nearParabolicEph 0)) = 21"
  "\<bar>fst (snd (GEO_kepler collab0 nearParabolicEph 0))\<bar> > 1 / 10 ^ 11"
proof -
  define \<epsilon> :: real where "\<epsilon> = 1 / 2 ^ 53"
  have eps: "0 < \<epsilon>" "\<epsilon> \<le> 1 / 10 ^ 15" unfolding \<epsilon>_def by (rule eps53)+
  have ecc: "ecc nearParabolicEph = 1 - \<epsilon>"
    by (simp add: nearParabolicEph_def \<epsilon>_def)
  define E0 where "E0 = \<epsilon> + (1 - \<epsilon>) * sin \<epsilon>"
  define d where "d = (\<epsilon> - (E0 - (1 - \<epsilon>) * sin E0)) / (1 - (1 - \<epsilon>) * cos E0)"
  note fs = newton_first_step [OF eps, folded E0_def, folded d_def]
  have start: "GEO_kepler collab0 nearParabolicEph 0 = kepler_loop \<epsilon> (1 - \<epsilon>) E0 1"
    unfolding GEO_kepler_meana nearParabolic_meana ecc E0_def \<epsilon>_def ..
  have big: "\<bar>d\<bar> > 1 / 10 ^ 11" using fs(1) by linarith
  have "(1::int) + 1 \<le> 20" by simp
  then have first: "kepler_loop \<epsilon> (1 - \<epsilon>) E0 1 = kepler_loop \<epsilon> (1 - \<epsilon>) (E0 + d) (1 + 1)"
    unfolding d_def
    by (subst kepler_step) (simp only: big [unfolded d_def] simp_thms if_True)
  have two: "(1::int) + 1 = 2" by simp
  have lo: "9 / 10 * (3 / 5) ^ nat (2 - 2) \<le> E0 + d" using fs(2) by simp
  note cap = slow_loop_cap [OF eps _ _ lo fs(3)]
  have c: "snd (snd (kepler_loop \<epsilon> (1 - \<epsilon>) (E0 + d) 2)) = 21
         \<and> \<bar>fst (snd (kepler_loop \<epsilon> (1 - \<epsilon>) (E0 + d) 2))\<bar> > 1 / 10 ^ 11"
    by (rule cap) simp_all
  show "snd (snd (GEO_kepler collab0 nearParabolicEph 0)) = 21"
    unfolding start first two using c by blast
  show "\<bar>fst (snd (GEO_kepler collab0 nearParabolicEph 0))\<bar> > 1 / 10 ^ 11"
    unfolding start first two using c by blast
qed

section \<open>Theorems\<close>

text \<open>
  C1: the claim is that the position is (rotation about the third axis by
  \<open>earthRotationRate * elapsed\<close>) after (rotation about the first axis by the tilt)
  applied to \<open>(xGK, yGK, zGK)\<close>. The matrix the source names \<open>matZ\<close> ("Rz matrix"),
  which carries the earth-rotation angle, is the rotation about the first axis, and
  the matrix it names \<open>matX\<close> ("Rx matrix"), which carries the tilt, is the rotation
  about the third axis. For the circular equatorial record at its reference epoch the
  intermediate vector lies on the first axis: the claimed position is that vector,
  the computed one is turned by 5 degrees about the third axis.
\<close>

theorem svXvt_GEO_rotation_axes:
  "matZ c r t = spec_rot_first (ell_angVelocity c * (t - ctToe r))
   \<and> matX c = spec_rot_third (- 5 * PI c / 180)
   \<and> svXvt collab0 geoEph 0 = Inr (svXvt_GEO collab0 geoEph 0)
   \<and> x (svXvt_GEO collab0 geoEph 0) =
       (42164000 * cos (5 * PI collab0 / 180), 42164000 * sin (5 * PI collab0 / 180), 0)
   \<and> spec_GEO_position collab0 geoEph 0 (fst (GEO_kepler collab0 geoEph 0)) = (42164000, 0, 0)
   \<and> x (svXvt_GEO collab0 geoEph 0)
       \<noteq> spec_GEO_position collab0 geoEph 0 (fst (GEO_kepler collab0 geoEph 0))"
proof -
  have a: "matZ c r t = spec_rot_first (ell_angVelocity c * (t - ctToe r))"
    by (simp add: matZ_def spec_rot_first_def Let_def)
  have b: "matX c = spec_rot_third (- 5 * PI c / 180)"
    by (simp add: matX_def spec_rot_third_def Let_def)
  have c: "svXvt collab0 geoEph 0 = Inr (svXvt_GEO collab0 geoEph 0)"
    by (rule svXvt_GEO_branch) (simp_all add: geoEph_def)
  have d: "spec_GEO_position collab0 geoEph 0 (fst (GEO_kepler collab0 geoEph 0)) = (42164000, 0, 0)"
    by (simp only: kepler_circ fst_conv spec_pos_circ)
  have e: "x (svXvt_GEO collab0 geoEph 0) \<noteq> (42164000, 0, 0)"
    unfolding code_pos_circ using tilt_sin_pos by simp
  show ?thesis
    using a b c d e code_pos_circ by simp
qed

text \<open>
  C2: the claim is that \<^verbatim>\<open>GalEphemerisStore::findEphemeris\<close> rejects exactly the
  satellites that are not Galileo. The test of the source is against
  \<^verbatim>\<open>systemBeiDou\<close>: a Galileo satellite is rejected with "Invalid satellite system"
  whatever the store holds, and a BeiDou satellite is passed on to the search.
\<close>

theorem findEphemeris_rejects_Galileo:
  "findEphemeris findOrbitEph \<lparr>id_sat = 1, system = systemGalileo\<rparr> t
     = Inl (InvalidRequest ''Invalid satellite system'')
   \<and> findEphemeris (\<lambda>sat t. Some eph) \<lparr>id_sat = 1, system = systemBeiDou\<rparr> t = Inr eph"
  by (simp add: findEphemeris_def)

text \<open>
  The claim C3 fails at the record \<^const>\<open>nearParabolicEph\<close>, an elliptic orbit
  (\<open>0 \<le> ecc < 1\<close>): at the reference epoch the loop leaves with \<open>loop_cnt = 21\<close> and
  an increment above the threshold, and \<^verbatim>\<open>svXvt\<close> returns an \<^verbatim>\<open>Xvt\<close>.
\<close>

theorem svXvt_GEO_cap_counterexample:
  "dataLoadedFlag nearParabolicEph \<and> id_sat (satID nearParabolicEph) = 1
   \<and> 0 \<le> ecc nearParabolicEph \<and> ecc nearParabolicEph < 1
   \<and> snd (snd (GEO_kepler collab0 nearParabolicEph 0)) = 21
   \<and> \<bar>fst (snd (GEO_kepler collab0 nearParabolicEph 0))\<bar> > 1 / 10 ^ 11
   \<and> svXvt collab0 nearParabolicEph 0 = Inr (svXvt_GEO collab0 nearParabolicEph 0)"
proof -
  have a: "dataLoadedFlag nearParabolicEph" "id_sat (satID nearParabolicEph) = 1"
    "0 \<le> ecc nearParabolicEph" "ecc nearParabolicEph < 1"
    by (simp_all add: nearParabolicEph_def geoEph_def)
  have d: "svXvt collab0 nearParabolicEph 0 = Inr (svXvt_GEO collab0 nearParabolicEph 0)"
    by (rule svXvt_GEO_branch) (simp_all add: a)
  show ?thesis
    using a d nearParabolic_cap by blast
qed

text \<open>
  C3, as amended: in the geostationary variant, whenever the Kepler iteration reaches
  the cap without the increment falling below the threshold, the loop has made
  exactly twenty passes and the call returns an \<^verbatim>\<open>Xvt\<close> whose position is computed
  from the twentieth iterate of the specification's step, an eccentric anomaly whose
  distance to the nineteenth iterate is above the threshold; no non-convergence
  condition is surfaced.
\<close>

theorem svXvt_GEO_cap_returns_state:
  assumes "dataLoadedFlag r" and "id_sat (satID r) \<le> 5"
    and "snd (snd (GEO_kepler c r t)) > 20"
    and "\<bar>fst (snd (GEO_kepler c r t))\<bar> > 1 / 10 ^ 11"
  shows "svXvt c r t = Inr (svXvt_GEO c r t)
   \<and> fst (GEO_kepler c r t) =
       (spec_kepler_step (GEO_meana c r t) (ecc r) ^^ 20)
         (GEO_meana c r t + ecc r * sin (GEO_meana c r t))
   \<and> \<bar>(spec_kepler_step (GEO_meana c r t) (ecc r) ^^ 20)
         (GEO_meana c r t + ecc r * sin (GEO_meana c r t))
      - (spec_kepler_step (GEO_meana c r t) (ecc r) ^^ 19)
         (GEO_meana c r t + ecc r * sin (GEO_meana c r t))\<bar> > 1 / 10 ^ 11
   \<and> x (svXvt_GEO c r t) =
       (let (xGK, yGK, zGK) =
              GEO_inertialPos c r t
                ((spec_kepler_step (GEO_meana c r t) (ecc r) ^^ 20)
                   (GEO_meana c r t + ecc r * sin (GEO_meana c r t)));
            result = mat_mult (mat_mult (matZ c r t) (matX c)) [[xGK], [yGK], [zGK]]
        in (elem result 0 0, elem result 1 0, elem result 2 0))"
proof -
  let ?m = "GEO_meana c r t" and ?e = "ecc r"
  let ?E0 = "?m + ?e * sin ?m"
  let ?K = "kepler_loop ?m ?e ?E0 1"
  have K: "GEO_kepler c r t = ?K" by (rule GEO_kepler_meana)
  have "(1::int) \<le> 20" by simp
  note fp = kepler_loop_funpow [OF this, of ?m ?e ?E0]
  have cnt: "snd (snd ?K) = 21" using fp assms(3) unfolding K by linarith
  have n20: "nat (21 - 1) = 20" "nat (21 - 1) - 1 = 19" by simp_all
  have ea: "fst ?K = (spec_kepler_step ?m ?e ^^ 20) ?E0"
    using fp unfolding cnt n20 by blast
  have de: "fst (snd ?K) = (spec_kepler_step ?m ?e ^^ 20) ?E0 - (spec_kepler_step ?m ?e ^^ 19) ?E0"
    using fp unfolding cnt n20 by simp
  have un: "\<bar>(spec_kepler_step ?m ?e ^^ 20) ?E0 - (spec_kepler_step ?m ?e ^^ 19) ?E0\<bar> > 1 / 10 ^ 11"
    using assms(4) unfolding K de .
  have pos: "x (svXvt_GEO c r t) =
       (let (xGK, yGK, zGK) = GEO_inertialPos c r t ((spec_kepler_step ?m ?e ^^ 20) ?E0);
            result = mat_mult (mat_mult (matZ c r t) (matX c)) [[xGK], [yGK], [zGK]]
        in (elem result 0 0, elem result 1 0, elem result 2 0))"
    unfolding svXvt_GEO_x K ea ..
  show ?thesis
    using svXvt_GEO_branch [OF assms(1,2)] ea [folded K] un pos by (intro conjI)
qed

theorem svXvt_GEO_cap_returns_state_witness:
  "dataLoadedFlag nearParabolicEph \<and> id_sat (satID nearParabolicEph) \<le> 5
   \<and> snd (snd (GEO_kepler collab0 nearParabolicEph 0)) > 20
   \<and> \<bar>fst (snd (GEO_kepler collab0 nearParabolicEph 0))\<bar> > 1 / 10 ^ 11
   \<and> svXvt collab0 nearParabolicEph 0 = Inr (svXvt_GEO collab0 nearParabolicEph 0)
   \<and> fst (GEO_kepler collab0 nearParabolicEph 0) =
       (spec_kepler_step (1 / 2 ^ 53) (1 - 1 / 2 ^ 53) ^^ 20)
         (1 / 2 ^ 53 + (1 - 1 / 2 ^ 53) * sin (1 / 2 ^ 53))"
proof -
  have h1: "dataLoadedFlag nearParabolicEph" by (simp add: nearParabolicEph_def geoEph_def)
  have h2: "id_sat (satID nearParabolicEph) \<le> 5" by (simp add: nearParabolicEph_def geoEph_def)
  have h3: "snd (snd (GEO_kepler collab0 nearParabolicEph 0)) > 20"
    by (simp add: nearParabolic_cap(1))
  note h4 = nearParabolic_cap(2)
  have e: "ecc nearParabolicEph = 1 - 1 / 2 ^ 53" by (simp add: nearParabolicEph_def)
  show ?thesis
    using svXvt_GEO_cap_returns_state [OF h1 h2 h3 h4] h1 h2 h3 h4
    unfolding nearParabolic_meana e by blast
qed

text \<open>
  C4: the claim is that the velocity of the geostationary variant is not left at
  zero. The source assigns \<open>0.0\<close> to the three components ("zero out for the time
  being while awaiting work on deriving the appropriate equations"): for the
  geostationary record, at every time and whatever the parameters, the call returns
  an \<^verbatim>\<open>Xvt\<close> whose velocity is the zero vector, as it does for every record.
\<close>

theorem svXvt_GEO_velocity_zero:
  "svXvt c geoEph t = Inr (svXvt_GEO c geoEph t) \<and> v (svXvt_GEO c geoEph t) = (0, 0, 0)"
proof -
  have "svXvt c geoEph t = Inr (svXvt_GEO c geoEph t)"
    by (rule svXvt_GEO_branch) (simp_all add: geoEph_def)
  then show ?thesis by (simp add: svXvt_GEO_v)
qed

text \<open>
  C5: for a record with data loaded, \<^verbatim>\<open>adjustValidity\<close> returns the record with
  \<open>beginValid = max Toe transmitTime\<close> and \<open>endValid = Toe + 3600\<close>; a transmit time
  before Toe leaves \<open>beginValid = Toe\<close>, a transmit time after Toe moves
  \<open>beginValid\<close> to it.
\<close>

theorem adjustValidity_window:
  assumes "dataLoadedFlag r"
  shows "adjustValidity r =
           Inr (r\<lparr>beginValid := max (ctToe r) (transmitTime r), endValid := ctToe r + 3600\<rparr>)
         \<and> (transmitTime r < ctToe r \<longrightarrow>
              adjustValidity r = Inr (r\<lparr>beginValid := ctToe r, endValid := ctToe r + 3600\<rparr>))
         \<and> (ctToe r < transmitTime r \<longrightarrow>
              adjustValidity r =
                Inr (r\<lparr>beginValid := transmitTime r, endValid := ctToe r + 3600\<rparr>))"
  using assms
  by (simp add: adjustValidity_def OrbitEph_adjustValidity_def Let_def max_def)

theorem adjustValidity_window_witness:
  "dataLoadedFlag (geoEph\<lparr>ctToe := 1000, transmitTime := 700\<rparr>)
   \<and> adjustValidity (geoEph\<lparr>ctToe := 1000, transmitTime := 700\<rparr>) =
       Inr (geoEph\<lparr>ctToe := 1000, transmitTime := 700, beginValid := 1000, endValid := 4600\<rparr>)
   \<and> adjustValidity (geoEph\<lparr>ctToe := 1000, transmitTime := 1120\<rparr>) =
       Inr (geoEph\<lparr>ctToe := 1000, transmitTime := 1120, beginValid := 1120, endValid := 4600\<rparr>)"
proof -
  have h1: "dataLoadedFlag (geoEph\<lparr>ctToe := 1000, transmitTime := 700\<rparr>)"
    by (simp add: geoEph_def)
  have h2: "dataLoadedFlag (geoEph\<lparr>ctToe := 1000, transmitTime := 1120\<rparr>)"
    by (simp add: geoEph_def)
  show ?thesis
    using adjustValidity_window [OF h1] adjustValidity_window [OF h2] h1 by simp
qed

text \<open>
  The claim C6 fails for a transmit time more than 3600 seconds after Toe: with
  \<open>Toe = 0\<close> and \<open>transmitTime = 3601\<close> the window is \<open>beginValid = 3601\<close>,
  \<open>endValid = 3600\<close>.
\<close>

theorem adjustValidity_order_counterexample:
  "dataLoadedFlag (geoEph\<lparr>transmitTime := 3601\<rparr>)
   \<and> adjustValidity (geoEph\<lparr>transmitTime := 3601\<rparr>) =
       Inr (geoEph\<lparr>transmitTime := 3601, beginValid := 3601, endValid := 3600\<rparr>)
   \<and> \<not> beginValid (geoEph\<lparr>transmitTime := 3601, beginValid := 3601, endValid := 3600\<rparr>)
         \<le> endValid (geoEph\<lparr>transmitTime := 3601, beginValid := 3601, endValid := 3600\<rparr>)"
  by (simp add: adjustValidity_def OrbitEph_adjustValidity_def Let_def geoEph_def)

text \<open>
  C6, as amended: for a record with data loaded, after \<^verbatim>\<open>adjustValidity\<close>,
  \<open>beginValid \<ge> Toe\<close> always, and \<open>beginValid \<le> endValid\<close> exactly when
  \<open>transmitTime \<le> Toe + 3600\<close>.
\<close>

theorem adjustValidity_bounds:
  assumes "dataLoadedFlag r"
  shows "\<not> isl (adjustValidity r)
         \<and> ctToe r \<le> beginValid (projr (adjustValidity r))
         \<and> (beginValid (projr (adjustValidity r)) \<le> endValid (projr (adjustValidity r)))
             = (transmitTime r \<le> ctToe r + 3600)"
  using assms
  by (simp add: adjustValidity_def OrbitEph_adjustValidity_def Let_def)

theorem adjustValidity_bounds_witness:
  "dataLoadedFlag (geoEph\<lparr>ctToe := 1000, transmitTime := 1120\<rparr>)
   \<and> ctToe (geoEph\<lparr>ctToe := 1000, transmitTime := 1120\<rparr>)
       \<le> beginValid (projr (adjustValidity (geoEph\<lparr>ctToe := 1000, transmitTime := 1120\<rparr>)))
   \<and> beginValid (projr (adjustValidity (geoEph\<lparr>ctToe := 1000, transmitTime := 1120\<rparr>)))
       \<le> endValid (projr (adjustValidity (geoEph\<lparr>ctToe := 1000, transmitTime := 1120\<rparr>)))"
proof -
  have h: "dataLoadedFlag (geoEph\<lparr>ctToe := 1000, transmitTime := 1120\<rparr>)"
    by (simp add: geoEph_def)
  show ?thesis
    using adjustValidity_bounds [OF h] h by simp
qed

text \<open>
  The claim C7 fails at \<open>ct = endValid\<close>: \<^verbatim>\<open>isValid\<close> returns true there.
\<close>

theorem isValid_at_endValid_counterexample:
  "beginValid geoEph \<le> endValid geoEph \<and> isValid geoEph (endValid geoEph)"
  by (simp add: isValid_def geoEph_def)

text \<open>
  C7, as amended: \<^verbatim>\<open>isValid(ct)\<close> returns true if and only if
  \<open>beginValid \<le> ct \<le> endValid\<close>; the window is closed at both ends.
\<close>

theorem isValid_closed_window:
  "isValid r ct = (beginValid r \<le> ct \<and> ct \<le> endValid r)"
  by (simp add: isValid_def)

text \<open>
  C8: for a record with data loaded \<^verbatim>\<open>isHealthy\<close> returns whether the health code
  is 0; for a record without, it fails with the "Data not loaded" request error.
\<close>

theorem isHealthy_health_zero:
  "(dataLoadedFlag r \<longrightarrow> isHealthy r = Inr (health r = 0))
   \<and> (\<not> dataLoadedFlag r \<longrightarrow> isHealthy r = Inl DataNotLoaded)"
  by (simp add: isHealthy_def OrbitEph_isHealthy_def)

theorem isHealthy_health_zero_witness:
  "isHealthy geoEph = Inr True
   \<and> isHealthy (geoEph\<lparr>health := 1\<rparr>) = Inr False
   \<and> isHealthy (geoEph\<lparr>dataLoadedFlag := False\<rparr>) = Inl DataNotLoaded"
  using isHealthy_health_zero [of geoEph]
        isHealthy_health_zero [of "geoEph\<lparr>health := 1\<rparr>"]
        isHealthy_health_zero [of "geoEph\<lparr>dataLoadedFlag := False\<rparr>"]
  by (simp add: geoEph_def)

text \<open>
  The claim C9 fails at the identifier 0: it is not among 1 to 5, and the call
  returns the geostationary computation, not what \<^verbatim>\<open>OrbitEph::svXvt\<close> returns.
\<close>

theorem svXvt_GEO_prn0_counterexample:
  "dataLoadedFlag prn0Eph \<and> id_sat (satID prn0Eph) = 0 \<and> id_sat (satID prn0Eph) \<notin> {1..5}
   \<and> svXvt collab0 prn0Eph 0 = Inr (svXvt_GEO collab0 prn0Eph 0)
   \<and> svXvt collab0 prn0Eph 0 \<noteq> OrbitEph_svXvt collab0 prn0Eph 0"
  by (simp add: svXvt_def prn0Eph_def geoEph_def collab0_def)

text \<open>
  C9, as amended: for a loaded record with satellite id above 5, \<^verbatim>\<open>svXvt\<close> returns
  what \<^verbatim>\<open>OrbitEph::svXvt\<close> returns; the result is the geostationary computation,
  whatever \<^verbatim>\<open>OrbitEph::svXvt\<close> would return, exactly for the ids up to 5 (the ids
  1 to 5, and 0 and the negative ones as well).
\<close>

theorem svXvt_dispatch:
  assumes "dataLoadedFlag r"
  shows "(id_sat (satID r) > 5 \<longrightarrow> svXvt c r t = OrbitEph_svXvt c r t)
         \<and> (\<forall>f. svXvt (c\<lparr>OrbitEph_svXvt := f\<rparr>) r t = Inr (svXvt_GEO c r t))
             = (id_sat (satID r) \<le> 5)"
proof -
  have a: "id_sat (satID r) > 5 \<longrightarrow> svXvt c r t = OrbitEph_svXvt c r t"
    using assms by (simp add: svXvt_def)
  have b: "(\<forall>f. svXvt (c\<lparr>OrbitEph_svXvt := f\<rparr>) r t = Inr (svXvt_GEO c r t))"
    if "id_sat (satID r) \<le> 5"
    using assms that by (simp add: svXvt_def svXvt_GEO_indep)
  have c: "\<not> (\<forall>f. svXvt (c\<lparr>OrbitEph_svXvt := f\<rparr>) r t = Inr (svXvt_GEO c r t))"
    if "id_sat (satID r) > 5"
  proof
    assume "\<forall>f. svXvt (c\<lparr>OrbitEph_svXvt := f\<rparr>) r t = Inr (svXvt_GEO c r t)"
    then have "svXvt (c\<lparr>OrbitEph_svXvt := (\<lambda>r t. Inl (InvalidRequest []))\<rparr>) r t
                 = Inr (svXvt_GEO c r t)" by blast
    then show False using assms that by (simp add: svXvt_def)
  qed
  show ?thesis
    using a b c by (cases "id_sat (satID r) \<le> 5") auto
qed

theorem svXvt_dispatch_witness:
  "dataLoadedFlag meoEph \<and> id_sat (satID meoEph) > 5
   \<and> svXvt collab0 meoEph 0 = OrbitEph_svXvt collab0 meoEph 0
   \<and> svXvt collab0 geoEph 0 = Inr (svXvt_GEO collab0 geoEph 0)
   \<and> svXvt collab0 prn0Eph 0 = Inr (svXvt_GEO collab0 prn0Eph 0)"
proof -
  have h1: "dataLoadedFlag meoEph" by (simp add: meoEph_def geoEph_def)
  have h2: "dataLoadedFlag geoEph" by (simp add: geoEph_def)
  have h3: "dataLoadedFlag prn0Eph" by (simp add: prn0Eph_def geoEph_def)
  have i1: "id_sat (satID meoEph) = 6" by (simp add: meoEph_def)
  have i2: "id_sat (satID geoEph) = 1" by (simp add: geoEph_def)
  have i3: "id_sat (satID prn0Eph) = 0" by (simp add: prn0Eph_def)
  have same: "collab0\<lparr>OrbitEph_svXvt := OrbitEph_svXvt collab0\<rparr> = collab0" by simp
  have "\<forall>f. svXvt (collab0\<lparr>OrbitEph_svXvt := f\<rparr>) geoEph 0 = Inr (svXvt_GEO collab0 geoEph 0)"
    using svXvt_dispatch [OF h2, of collab0 0] i2 by simp
  then have g: "svXvt collab0 geoEph 0 = Inr (svXvt_GEO collab0 geoEph 0)"
    using same by metis
  have "\<forall>f. svXvt (collab0\<lparr>OrbitEph_svXvt := f\<rparr>) prn0Eph 0 = Inr (svXvt_GEO collab0 prn0Eph 0)"
    using svXvt_dispatch [OF h3, of collab0 0] i3 by simp
  then have p: "svXvt collab0 prn0Eph 0 = Inr (svXvt_GEO collab0 prn0Eph 0)"
    using same by metis
  show ?thesis
    using svXvt_dispatch [OF h1, of collab0 0] h1 i1 g p by simp
qed

text \<open>
  C10: the stored unstable period is never negative. The constructor and
  \<^verbatim>\<open>setUnstablePeriod\<close> both store \<open>0\<close> for an argument \<open>\<le> 0\<close> and store a positive
  argument unchanged.
\<close>

theorem unstablePeriod_value:
  "0 \<le> unstablePeriod (fst (SatArcMarker_init watchFlag del ut ci))
   \<and> (ut \<le> 0 \<longrightarrow> unstablePeriod (fst (SatArcMarker_init watchFlag del ut ci)) = 0)
   \<and> (0 < ut \<longrightarrow> unstablePeriod (fst (SatArcMarker_init watchFlag del ut ci)) = ut)
   \<and> 0 \<le> unstablePeriod (setUnstablePeriod m ut)
   \<and> (ut \<le> 0 \<longrightarrow> unstablePeriod (setUnstablePeriod m ut) = 0)
   \<and> (0 < ut \<longrightarrow> unstablePeriod (setUnstablePeriod m ut) = ut)"
  by (simp add: SatArcMarker_init_def setIndex_def setUnstablePeriod_def Let_def)

theorem unstablePeriod_value_witness:
  "unstablePeriod (fst (SatArcMarker_init (0::nat) True 31 2900000)) = 31
   \<and> unstablePeriod (fst (SatArcMarker_init (0::nat) True (- 3) 2900000)) = 0
   \<and> unstablePeriod (fst (SatArcMarker_init (0::nat) True 0 2900000)) = 0
   \<and> unstablePeriod (setUnstablePeriod
        (fst (SatArcMarker_init (0::nat) True 31 2900000)) (- 5)) = 0
   \<and> unstablePeriod (setUnstablePeriod
        (fst (SatArcMarker_init (0::nat) True 31 2900000)) 8) = 8"
proof -
  let ?m = "fst (SatArcMarker_init (0::nat) True 31 2900000)"
  have "(0::real) < 31" "(- 3 :: real) \<le> 0" "(0::real) \<le> 0" "(- 5 :: real) \<le> 0" "(0::real) < 8"
    by simp_all
  then show ?thesis
    using unstablePeriod_value [where watchFlag = "0::nat" and del = True and ut = 31
            and ci = 2900000 and m = ?m]
          unstablePeriod_value [where watchFlag = "0::nat" and del = True and ut = "- 3"
            and ci = 2900000 and m = ?m]
          unstablePeriod_value [where watchFlag = "0::nat" and del = True and ut = 0
            and ci = 2900000 and m = ?m]
          unstablePeriod_value [where watchFlag = "0::nat" and del = True and ut = "- 5"
            and ci = 2900000 and m = ?m]
          unstablePeriod_value [where watchFlag = "0::nat" and del = True and ut = 8
            and ci = 2900000 and m = ?m]
    by blast
qed

end
